theory Spec2Isabelle
  imports
    Main
    "HOL-Library.Word"
    "HOL-Library.Monad_Syntax"
    "HOL-Library.Finite_Map"
    "HOL-Library.Char_ord"
    "HOL-Library.List_Lexorder"
begin

section \<open>Go values\<close>

text \<open>
  The filter builders of \<^verbatim>\<open>agent/filters.go\<close> are Go structs that are filled in through
  pointer receivers. The embedding keeps what Go distinguishes:
  \<^item> a slice is \<open>None\<close> (the nil slice) or \<open>Some xs\<close> (a non-nil slice, possibly of
    length 0);
  \<^item> a pointer field (\<^verbatim>\<open>*bool\<close>, \<^verbatim>\<open>*RangeFilter\<close>, ...) is \<open>None\<close> (nil) or \<open>Some v\<close>,
    the value it points to. No method of the file writes through such a pointer, so the
    pointee is kept by value;
  \<^item> \<^verbatim>\<open>uint\<close>, \<^verbatim>\<open>int\<close> and \<^verbatim>\<open>int64\<close> are 64-bit words (a 64-bit platform), read unsigned
    or signed where they are printed;
  \<^item> the values of a \<^verbatim>\<open>[]interface{}\<close> are of a type \<open>'v\<close> left open;
  \<^item> a map is \<open>None\<close> (the nil map) or a finite map.
\<close>

type_synonym uint = "64 word"
type_synonym int64 = "64 word"
type_synonym go_int = "64 word"
type_synonym 'a slice = "'a list option"
type_synonym 'a pointer = "'a option"
type_synonym ('k, 'a) go_map = "('k, 'a) fmap option"

definition len :: "'a slice \<Rightarrow> nat" where
  "len s = (case s of None \<Rightarrow> 0 | Some xs \<Rightarrow> length xs)"

definition len_map :: "('k, 'a) go_map \<Rightarrow> nat" where
  "len_map m = (case m of None \<Rightarrow> 0 | Some f \<Rightarrow> fcard (fmdom f))"

subsection \<open>Aggregates behind pointers\<close>

text \<open>
  Every mutator has a pointer receiver and returns that pointer. The aggregates of one
  kind live in a heap, a list indexed by address; a reference is \<open>None\<close> (nil) or
  \<open>Some i\<close>. Reading or writing through nil panics in Go: the result \<open>None\<close>. Go has no
  dangling reference; an address outside the heap gives \<open>None\<close> as well.
\<close>

type_synonym 'a heap = "'a list"
type_synonym ref = "nat option"

definition new :: "'a heap \<Rightarrow> 'a \<Rightarrow> 'a heap \<times> ref" where
  "new h v = (h @ [v], Some (length h))"

definition load :: "'a heap \<Rightarrow> ref \<Rightarrow> 'a option" where
  "load h p =
     (case p of
        None \<Rightarrow> None
      | Some i \<Rightarrow> if i < length h then Some (h ! i) else None)"

definition assign :: "'a heap \<Rightarrow> ref \<Rightarrow> ('a \<Rightarrow> 'a) \<Rightarrow> 'a heap option" where
  "assign h p f =
     (case p of
        None \<Rightarrow> None
      | Some i \<Rightarrow> if i < length h then Some (h[i := f (h ! i)]) else None)"

section \<open>JSON encoding\<close>

text \<open>
  The aggregates are request payloads: they are serialised by Go's \<^verbatim>\<open>encoding/json\<close>,
  which is driven by the struct tags of the source. What the tags fix is modelled here, on
  JSON values (an object is the list of its members in the order they are written):
  \<^item> the fields of a struct are written in declaration order under the tag's name;
  \<^item> a field tagged \<^verbatim>\<open>omitempty\<close> is left out when its value is empty: \<^verbatim>\<open>false\<close>, 0, a nil
    pointer, and a string, slice or map of length 0;
  \<^item> a nil pointer, slice or map that is written is \<^verbatim>\<open>null\<close>; the keys of a map are
    written in sorted order;
  \<^item> a string, and a map key, is written as valid UTF-8: every byte that does not start a
    valid UTF-8 sequence is replaced by U+FFFD (the bytes EF BF BD). The escapes of the
    written text (quotes, control characters, \<^verbatim>\<open><\<close>, \<^verbatim>\<open>>\<close>, \<^verbatim>\<open>&\<close>, U+2028, U+2029) denote
    the same string value and do not show on JSON values;
  \<^item> encoding fails as a whole (\<open>None\<close>) when a value of a \<^verbatim>\<open>[]interface{}\<close> cannot
    be encoded; the encoder of these values is the parameter \<open>enc\<close>.
\<close>

datatype json =
    JNull
  | JBool bool
  | JNumber int
  | JString string
  | JArray "json list"
  | JObject "(string \<times> json) list"

definition field :: "string \<Rightarrow> json option \<Rightarrow> (string \<times> json) list option" where
  "field name v = map_option (\<lambda>j. [(name, j)]) v"

definition omitempty :: "bool \<Rightarrow> string \<Rightarrow> json option \<Rightarrow> (string \<times> json) list option" where
  "omitempty isEmptyValue name v = (if isEmptyValue then Some [] else field name v)"

definition object :: "(string \<times> json) list option list \<Rightarrow> json option" where
  "object fields = map_option (\<lambda>ms. JObject (concat ms)) (those fields)"

definition enc_bool :: "bool \<Rightarrow> json option" where
  "enc_bool b = Some (JBool b)"

text \<open>
  UTF-8 as \<^verbatim>\<open>unicode/utf8\<close> decodes it. \<open>first\<close> is the table of lead bytes above the
  ASCII range: the size of the sequence and the range accepted for its second byte,
  \<open>None\<close> for a byte that starts no sequence. \<open>DecodeRuneInString\<close> gives the size of
  the valid multi-byte sequence at the head of the string, \<open>None\<close> where Go returns
  \<^verbatim>\<open>(RuneError, 1)\<close>.
\<close>

definition in_range :: "nat \<Rightarrow> nat \<Rightarrow> char \<Rightarrow> bool" where
  "in_range lo hi c = (lo \<le> of_char c \<and> (of_char c :: nat) \<le> hi)"

definition first :: "char \<Rightarrow> (nat \<times> nat \<times> nat) option" where
  "first b =
     (let x = of_char b :: nat in
      if 0xC2 \<le> x \<and> x \<le> 0xDF then Some (2, 0x80, 0xBF)
      else if x = 0xE0 then Some (3, 0xA0, 0xBF)
      else if 0xE1 \<le> x \<and> x \<le> 0xEC then Some (3, 0x80, 0xBF)
      else if x = 0xED then Some (3, 0x80, 0x9F)
      else if 0xEE \<le> x \<and> x \<le> 0xEF then Some (3, 0x80, 0xBF)
      else if x = 0xF0 then Some (4, 0x90, 0xBF)
      else if 0xF1 \<le> x \<and> x \<le> 0xF3 then Some (4, 0x80, 0xBF)
      else if x = 0xF4 then Some (4, 0x80, 0x8F)
      else None)"

definition DecodeRuneInString :: "string \<Rightarrow> nat option" where
  "DecodeRuneInString s =
     (case s of
        [] \<Rightarrow> None
      | b # rest \<Rightarrow>
          (case first b of
             None \<Rightarrow> None
           | Some (sz, lo, hi) \<Rightarrow>
               if length s < sz then None
               else if \<not> in_range lo hi (rest ! 0) then None
               else if sz \<le> 2 then Some 2
               else if \<not> in_range 0x80 0xBF (rest ! 1) then None
               else if sz \<le> 3 then Some 3
               else if \<not> in_range 0x80 0xBF (rest ! 2) then None
               else Some 4))"

text \<open>
  The string value that \<^verbatim>\<open>encoding/json\<close> writes for a Go string (its \<^verbatim>\<open>appendString\<close>):
  ASCII bytes and valid multi-byte sequences are kept, any other byte becomes U+FFFD.
  The first argument counts the bytes of the current sequence that are still to be copied.
\<close>

fun appendString :: "nat \<Rightarrow> string \<Rightarrow> string" where
  "appendString k [] = []"
| "appendString k (b # bs) =
     (if 0 < k then b # appendString (k - 1) bs
      else if (of_char b :: nat) < 0x80 then b # appendString 0 bs
      else case DecodeRuneInString (b # bs) of
             None \<Rightarrow> [CHR 0xEF, CHR 0xBF, CHR 0xBD] @ appendString 0 bs
           | Some sz \<Rightarrow> b # appendString (sz - 1) bs)"

definition enc_string :: "string \<Rightarrow> json option" where
  "enc_string s = Some (JString (appendString 0 s))"

definition enc_uint :: "uint \<Rightarrow> json option" where
  "enc_uint w = Some (JNumber (uint w))"

definition enc_int :: "64 word \<Rightarrow> json option" where
  "enc_int w = Some (JNumber (sint w))"

definition enc_ptr :: "('a \<Rightarrow> json option) \<Rightarrow> 'a pointer \<Rightarrow> json option" where
  "enc_ptr enc p = (case p of None \<Rightarrow> Some JNull | Some x \<Rightarrow> enc x)"

definition enc_slice :: "('a \<Rightarrow> json option) \<Rightarrow> 'a slice \<Rightarrow> json option" where
  "enc_slice enc s =
     (case s of None \<Rightarrow> Some JNull | Some xs \<Rightarrow> map_option JArray (those (map enc xs)))"

definition enc_map :: "('a \<Rightarrow> json option) \<Rightarrow> (string, 'a) go_map \<Rightarrow> json option" where
  "enc_map enc m =
     (case m of
        None \<Rightarrow> Some JNull
      | Some f \<Rightarrow>
          object (map (\<lambda>k. field (appendString 0 k) (fmlookup f k \<bind> enc))
            (sorted_list_of_fset (fmdom f))))"

text \<open>\<^verbatim>\<open>json.Marshal\<close> of a reference to an aggregate.\<close>

definition Marshal :: "('a \<Rightarrow> json option) \<Rightarrow> 'a heap \<Rightarrow> ref \<Rightarrow> json option" where
  "Marshal enc h p = (case p of None \<Rightarrow> Some JNull | Some i \<Rightarrow> load h p \<bind> enc)"

section \<open>Property filters\<close>

record 'v propertyFilterType =
  Exists :: "bool pointer"
  Values :: "'v slice"
  ExcludeValues :: "'v slice"
  RequireEveryValue :: "bool pointer"

text \<open>
  \<^verbatim>\<open>NewPropertyFilterType\<close>: a switch of three cases over a zero-valued struct, the first
  that holds fills its fields.
\<close>

definition NewPropertyFilterType ::
  "bool \<Rightarrow> 'v slice \<Rightarrow> bool \<Rightarrow> 'v propertyFilterType" where
  "NewPropertyFilterType includes vals requireEveryValue =
     (let pft = \<lparr>Exists = None, Values = None, ExcludeValues = None,
                 RequireEveryValue = None\<rparr>
      in if vals = None then pft\<lparr>Exists := Some includes\<rparr>
         else if includes then
           pft\<lparr>Values := vals, RequireEveryValue := Some requireEveryValue\<rparr>
         else if \<not> includes then
           pft\<lparr>ExcludeValues := vals, RequireEveryValue := Some requireEveryValue\<rparr>
         else pft)"

type_synonym 'v PropertiesFilters =
  "(string, (string, 'v propertyFilterType pointer) go_map) go_map"

definition marshal_propertyFilterType ::
  "('v \<Rightarrow> json option) \<Rightarrow> 'v propertyFilterType \<Rightarrow> json option" where
  "marshal_propertyFilterType enc pft = object
     [omitempty (Exists pft = None) ''exists'' (enc_ptr enc_bool (Exists pft)),
      omitempty (len (Values pft) = 0) ''values'' (enc_slice enc (Values pft)),
      omitempty (len (ExcludeValues pft) = 0) ''exclude_values''
        (enc_slice enc (ExcludeValues pft)),
      omitempty (RequireEveryValue pft = None) ''require_every_value''
        (enc_ptr enc_bool (RequireEveryValue pft))]"

section \<open>Archives filters\<close>

record eventTypesFilter =
  Values :: "string slice"
  ExcludeValues :: "string slice"
  RequireEveryValue :: "bool pointer"

record SurveyFilter =
  Type :: string
  AnswerID :: string

record 'v archivesFilters =
  Agents :: "'v propertyFilterType pointer"
  GroupIDs :: "uint slice"
  From :: string
  To :: string
  Properties :: "'v PropertiesFilters"
  Tags :: "'v propertyFilterType pointer"
  Sales :: "'v propertyFilterType pointer"
  Goals :: "'v propertyFilterType pointer"
  Surveys :: "SurveyFilter slice"
  ThreadIDs :: "string slice"
  Query :: string
  EventTypes :: "eventTypesFilter pointer"

definition marshal_eventTypesFilter :: "eventTypesFilter \<Rightarrow> json option" where
  "marshal_eventTypesFilter etf = object
     [omitempty (len (Values etf) = 0) ''values'' (enc_slice enc_string (Values etf)),
      omitempty (len (ExcludeValues etf) = 0) ''exclude_values''
        (enc_slice enc_string (ExcludeValues etf)),
      omitempty (RequireEveryValue etf = None) ''require_every_value''
        (enc_ptr enc_bool (RequireEveryValue etf))]"

definition marshal_SurveyFilter :: "SurveyFilter \<Rightarrow> json option" where
  "marshal_SurveyFilter sf = object
     [field ''type'' (enc_string (Type sf)),
      field ''answer_id'' (enc_string (AnswerID sf))]"

definition marshal_PropertiesFilters ::
  "('v \<Rightarrow> json option) \<Rightarrow> 'v PropertiesFilters \<Rightarrow> json option" where
  "marshal_PropertiesFilters enc =
     enc_map (enc_map (enc_ptr (marshal_propertyFilterType enc)))"

definition marshal_archivesFilters ::
  "('v \<Rightarrow> json option) \<Rightarrow> 'v archivesFilters \<Rightarrow> json option" where
  "marshal_archivesFilters enc af = object
     [omitempty (Agents af = None) ''agents''
        (enc_ptr (marshal_propertyFilterType enc) (Agents af)),
      omitempty (len (GroupIDs af) = 0) ''group_ids'' (enc_slice enc_uint (GroupIDs af)),
      omitempty (From af = []) ''from'' (enc_string (From af)),
      omitempty (To af = []) ''to'' (enc_string (To af)),
      omitempty (len_map (Properties af) = 0) ''properties''
        (marshal_PropertiesFilters enc (Properties af)),
      omitempty (Tags af = None) ''tags''
        (enc_ptr (marshal_propertyFilterType enc) (Tags af)),
      omitempty (Sales af = None) ''sales''
        (enc_ptr (marshal_propertyFilterType enc) (Sales af)),
      omitempty (Goals af = None) ''goals''
        (enc_ptr (marshal_propertyFilterType enc) (Goals af)),
      omitempty (len (Surveys af) = 0) ''surveys''
        (enc_slice marshal_SurveyFilter (Surveys af)),
      omitempty (len (ThreadIDs af) = 0) ''thread_ids''
        (enc_slice enc_string (ThreadIDs af)),
      omitempty (Query af = []) ''query'' (enc_string (Query af)),
      omitempty (EventTypes af = None) ''event_types''
        (enc_ptr marshal_eventTypesFilter (EventTypes af))]"

definition NewArchivesFilters :: "'v archivesFilters heap \<Rightarrow> 'v archivesFilters heap \<times> ref" where
  "NewArchivesFilters h =
     new h \<lparr>Agents = None, GroupIDs = None, From = [], To = [], Properties = None,
            Tags = None, Sales = None, Goals = None, Surveys = None, ThreadIDs = None,
            Query = [], EventTypes = None\<rparr>"

definition archivesFilters_ByAgents ::
  "'v archivesFilters heap \<Rightarrow> ref \<Rightarrow> bool \<Rightarrow> 'v slice \<Rightarrow> bool \<Rightarrow>
   ('v archivesFilters heap \<times> ref) option" where
  "archivesFilters_ByAgents h af includes vals requireEveryValue = do {
     h' \<leftarrow> assign h af
       (\<lambda>a. a\<lparr>Agents := Some (NewPropertyFilterType includes vals requireEveryValue)\<rparr>);
     Some (h', af)
   }"

definition archivesFilters_ByGroups ::
  "'v archivesFilters heap \<Rightarrow> ref \<Rightarrow> uint slice \<Rightarrow> ('v archivesFilters heap \<times> ref) option" where
  "archivesFilters_ByGroups h af groupIDs = do {
     h' \<leftarrow> assign h af (\<lambda>a. a\<lparr>GroupIDs := groupIDs\<rparr>);
     Some (h', af)
   }"

text \<open>
  \<^verbatim>\<open>ByThreads\<close> overwrites the whole struct behind the receiver with a composite literal
  that names \<^verbatim>\<open>ThreadIDs\<close> only.
\<close>

definition archivesFilters_ByThreads ::
  "'v archivesFilters heap \<Rightarrow> ref \<Rightarrow> string slice \<Rightarrow> ('v archivesFilters heap \<times> ref) option" where
  "archivesFilters_ByThreads h af threadIDs = do {
     h' \<leftarrow> assign h af
       (\<lambda>_. \<lparr>Agents = None, GroupIDs = None, From = [], To = [], Properties = None,
              Tags = None, Sales = None, Goals = None, Surveys = None,
              ThreadIDs = threadIDs, Query = [], EventTypes = None\<rparr>);
     Some (h', af)
   }"

definition archivesFilters_ByQuery ::
  "'v archivesFilters heap \<Rightarrow> ref \<Rightarrow> string \<Rightarrow> ('v archivesFilters heap \<times> ref) option" where
  "archivesFilters_ByQuery h af query = do {
     h' \<leftarrow> assign h af (\<lambda>a. a\<lparr>Query := query\<rparr>);
     Some (h', af)
   }"

definition archivesFilters_FromDate ::
  "'v archivesFilters heap \<Rightarrow> ref \<Rightarrow> string \<Rightarrow> ('v archivesFilters heap \<times> ref) option" where
  "archivesFilters_FromDate h af date = do {
     h' \<leftarrow> assign h af (\<lambda>a. a\<lparr>From := date\<rparr>);
     Some (h', af)
   }"

definition archivesFilters_ToDate ::
  "'v archivesFilters heap \<Rightarrow> ref \<Rightarrow> string \<Rightarrow> ('v archivesFilters heap \<times> ref) option" where
  "archivesFilters_ToDate h af date = do {
     h' \<leftarrow> assign h af (\<lambda>a. a\<lparr>To := date\<rparr>);
     Some (h', af)
   }"

definition archivesFilters_ByProperties ::
  "'v archivesFilters heap \<Rightarrow> ref \<Rightarrow> 'v PropertiesFilters \<Rightarrow>
   ('v archivesFilters heap \<times> ref) option" where
  "archivesFilters_ByProperties h af propsFilters = do {
     h' \<leftarrow> assign h af (\<lambda>a. a\<lparr>Properties := propsFilters\<rparr>);
     Some (h', af)
   }"

definition archivesFilters_BySurveys ::
  "'v archivesFilters heap \<Rightarrow> ref \<Rightarrow> SurveyFilter slice \<Rightarrow>
   ('v archivesFilters heap \<times> ref) option" where
  "archivesFilters_BySurveys h af surveyFilters = do {
     h' \<leftarrow> assign h af (\<lambda>a. a\<lparr>Surveys := surveyFilters\<rparr>);
     Some (h', af)
   }"

definition archivesFilters_ByTags ::
  "'v archivesFilters heap \<Rightarrow> ref \<Rightarrow> bool \<Rightarrow> 'v slice \<Rightarrow> bool \<Rightarrow>
   ('v archivesFilters heap \<times> ref) option" where
  "archivesFilters_ByTags h af includes vals requireEveryValue = do {
     h' \<leftarrow> assign h af
       (\<lambda>a. a\<lparr>Tags := Some (NewPropertyFilterType includes vals requireEveryValue)\<rparr>);
     Some (h', af)
   }"

definition archivesFilters_BySales ::
  "'v archivesFilters heap \<Rightarrow> ref \<Rightarrow> bool \<Rightarrow> 'v slice \<Rightarrow> bool \<Rightarrow>
   ('v archivesFilters heap \<times> ref) option" where
  "archivesFilters_BySales h af includes vals requireEveryValue = do {
     h' \<leftarrow> assign h af
       (\<lambda>a. a\<lparr>Sales := Some (NewPropertyFilterType includes vals requireEveryValue)\<rparr>);
     Some (h', af)
   }"

definition archivesFilters_ByGoals ::
  "'v archivesFilters heap \<Rightarrow> ref \<Rightarrow> bool \<Rightarrow> 'v slice \<Rightarrow> bool \<Rightarrow>
   ('v archivesFilters heap \<times> ref) option" where
  "archivesFilters_ByGoals h af includes vals requireEveryValue = do {
     h' \<leftarrow> assign h af
       (\<lambda>a. a\<lparr>Goals := Some (NewPropertyFilterType includes vals requireEveryValue)\<rparr>);
     Some (h', af)
   }"

text \<open>
  \<^verbatim>\<open>ByEventTypes\<close> stores a fresh event-type filter holding the values on one side, then
  sets \<^verbatim>\<open>RequireEveryValue\<close> through the field it has just stored (never nil there).
\<close>

definition archivesFilters_ByEventTypes ::
  "'v archivesFilters heap \<Rightarrow> ref \<Rightarrow> bool \<Rightarrow> string slice \<Rightarrow> bool \<Rightarrow>
   ('v archivesFilters heap \<times> ref) option" where
  "archivesFilters_ByEventTypes h af includes vals requireEveryValue = do {
     h1 \<leftarrow> (if includes then
              assign h af (\<lambda>a. a\<lparr>EventTypes :=
                Some \<lparr>Values = vals, ExcludeValues = None, RequireEveryValue = None\<rparr>\<rparr>)
            else
              assign h af (\<lambda>a. a\<lparr>EventTypes :=
                Some \<lparr>Values = None, ExcludeValues = vals, RequireEveryValue = None\<rparr>\<rparr>));
     a1 \<leftarrow> load h1 af;
     e \<leftarrow> EventTypes a1;
     h2 \<leftarrow> assign h1 af
       (\<lambda>a. a\<lparr>EventTypes := Some (e\<lparr>RequireEveryValue := Some requireEveryValue\<rparr>)\<rparr>);
     Some (h2, af)
   }"

section \<open>Customers filters\<close>

record stringFilter =
  Values :: "string slice"
  ExcludeValues :: "string slice"

definition marshal_stringFilter :: "stringFilter \<Rightarrow> json option" where
  "marshal_stringFilter sf = object
     [omitempty (len (Values sf) = 0) ''values'' (enc_slice enc_string (Values sf)),
      omitempty (len (ExcludeValues sf) = 0) ''exclude_values''
        (enc_slice enc_string (ExcludeValues sf))]"

definition NewStringFilter :: "string slice \<Rightarrow> bool \<Rightarrow> stringFilter" where
  "NewStringFilter values inclusive =
     (let sf = \<lparr>Values = None, ExcludeValues = None\<rparr>
      in if inclusive then sf\<lparr>Values := values\<rparr> else sf\<lparr>ExcludeValues := values\<rparr>)"

record integerFilter =
  Values :: "int64 slice"
  ExcludeValues :: "int64 slice"

definition marshal_integerFilter :: "integerFilter \<Rightarrow> json option" where
  "marshal_integerFilter intF = object
     [omitempty (len (Values intF) = 0) ''values'' (enc_slice enc_int (Values intF)),
      omitempty (len (ExcludeValues intF) = 0) ''exclude_values''
        (enc_slice enc_int (ExcludeValues intF))]"

definition NewIntegerFilter :: "int64 slice \<Rightarrow> bool \<Rightarrow> integerFilter" where
  "NewIntegerFilter values inclusive =
     (let intF = \<lparr>Values = None, ExcludeValues = None\<rparr>
      in if inclusive then intF\<lparr>Values := values\<rparr> else intF\<lparr>ExcludeValues := values\<rparr>)"

record RangeFilter =
  LTE :: go_int
  LT :: go_int
  GTE :: go_int
  GT :: go_int
  EQ :: go_int

definition marshal_RangeFilter :: "RangeFilter \<Rightarrow> json option" where
  "marshal_RangeFilter rf = object
     [omitempty (LTE rf = 0) ''lte'' (enc_int (LTE rf)),
      omitempty (LT rf = 0) ''lt'' (enc_int (LT rf)),
      omitempty (GTE rf = 0) ''gte'' (enc_int (GTE rf)),
      omitempty (GT rf = 0) ''gt'' (enc_int (GT rf)),
      omitempty (EQ rf = 0) ''eq'' (enc_int (EQ rf))]"

record DateRangeFilter =
  LTE :: string
  LT :: string
  GTE :: string
  GT :: string
  EQ :: string

definition marshal_DateRangeFilter :: "DateRangeFilter \<Rightarrow> json option" where
  "marshal_DateRangeFilter drf = object
     [omitempty (LTE drf = []) ''lte'' (enc_string (LTE drf)),
      omitempty (LT drf = []) ''lt'' (enc_string (LT drf)),
      omitempty (GTE drf = []) ''gte'' (enc_string (GTE drf)),
      omitempty (GT drf = []) ''gt'' (enc_string (GT drf)),
      omitempty (EQ drf = []) ''eq'' (enc_string (EQ drf))]"

record customersFilters =
  Country :: "stringFilter pointer"
  Email :: "stringFilter pointer"
  Name :: "stringFilter pointer"
  CustomerID :: "stringFilter pointer"
  ChatGroupIDs :: "integerFilter pointer"
  ChatsCount :: "RangeFilter pointer"
  ThreadsCount :: "RangeFilter pointer"
  VisitsCount :: "RangeFilter pointer"
  CreatedAt :: "DateRangeFilter pointer"
  AgentLastEventCreatedAt :: "DateRangeFilter pointer"
  CustomerLastEventCreatedAt :: "DateRangeFilter pointer"
  IncludeCustomersWithoutChats :: "bool pointer"

definition marshal_customersFilters :: "customersFilters \<Rightarrow> json option" where
  "marshal_customersFilters cf = object
     [omitempty (Country cf = None) ''country'' (enc_ptr marshal_stringFilter (Country cf)),
      omitempty (Email cf = None) ''email'' (enc_ptr marshal_stringFilter (Email cf)),
      omitempty (Name cf = None) ''name'' (enc_ptr marshal_stringFilter (Name cf)),
      omitempty (CustomerID cf = None) ''customer_id''
        (enc_ptr marshal_stringFilter (CustomerID cf)),
      omitempty (ChatGroupIDs cf = None) ''chat_group_ids''
        (enc_ptr marshal_integerFilter (ChatGroupIDs cf)),
      omitempty (ChatsCount cf = None) ''chats_count''
        (enc_ptr marshal_RangeFilter (ChatsCount cf)),
      omitempty (ThreadsCount cf = None) ''threads_count''
        (enc_ptr marshal_RangeFilter (ThreadsCount cf)),
      omitempty (VisitsCount cf = None) ''visits_count''
        (enc_ptr marshal_RangeFilter (VisitsCount cf)),
      omitempty (CreatedAt cf = None) ''created_at''
        (enc_ptr marshal_DateRangeFilter (CreatedAt cf)),
      omitempty (AgentLastEventCreatedAt cf = None) ''agent_last_event_created_at''
        (enc_ptr marshal_DateRangeFilter (AgentLastEventCreatedAt cf)),
      omitempty (CustomerLastEventCreatedAt cf = None) ''customer_last_event_created_at''
        (enc_ptr marshal_DateRangeFilter (CustomerLastEventCreatedAt cf)),
      omitempty (IncludeCustomersWithoutChats cf = None) ''include_customers_without_chats''
        (enc_ptr enc_bool (IncludeCustomersWithoutChats cf))]"

definition NewCustomersFilters :: "customersFilters heap \<Rightarrow> customersFilters heap \<times> ref" where
  "NewCustomersFilters h =
     new h \<lparr>Country = None, Email = None, Name = None, CustomerID = None,
            ChatGroupIDs = None, ChatsCount = None, ThreadsCount = None,
            VisitsCount = None, CreatedAt = None, AgentLastEventCreatedAt = None,
            CustomerLastEventCreatedAt = None, IncludeCustomersWithoutChats = None\<rparr>"

definition customersFilters_ByCountry ::
  "customersFilters heap \<Rightarrow> ref \<Rightarrow> string slice \<Rightarrow> bool \<Rightarrow> (customersFilters heap \<times> ref) option" where
  "customersFilters_ByCountry h cf values inclusive = do {
     h' \<leftarrow> assign h cf (\<lambda>c. c\<lparr>Country := Some (NewStringFilter values inclusive)\<rparr>);
     Some (h', cf)
   }"

definition customersFilters_ByEmail ::
  "customersFilters heap \<Rightarrow> ref \<Rightarrow> string slice \<Rightarrow> bool \<Rightarrow> (customersFilters heap \<times> ref) option" where
  "customersFilters_ByEmail h cf values inclusive = do {
     h' \<leftarrow> assign h cf (\<lambda>c. c\<lparr>Email := Some (NewStringFilter values inclusive)\<rparr>);
     Some (h', cf)
   }"

definition customersFilters_ByName ::
  "customersFilters heap \<Rightarrow> ref \<Rightarrow> string slice \<Rightarrow> bool \<Rightarrow> (customersFilters heap \<times> ref) option" where
  "customersFilters_ByName h cf values inclusive = do {
     h' \<leftarrow> assign h cf (\<lambda>c. c\<lparr>Name := Some (NewStringFilter values inclusive)\<rparr>);
     Some (h', cf)
   }"

definition customersFilters_ByID ::
  "customersFilters heap \<Rightarrow> ref \<Rightarrow> string slice \<Rightarrow> bool \<Rightarrow> (customersFilters heap \<times> ref) option" where
  "customersFilters_ByID h cf values inclusive = do {
     h' \<leftarrow> assign h cf (\<lambda>c. c\<lparr>CustomerID := Some (NewStringFilter values inclusive)\<rparr>);
     Some (h', cf)
   }"

definition customersFilters_ByChatGroupIDs ::
  "customersFilters heap \<Rightarrow> ref \<Rightarrow> int64 slice \<Rightarrow> bool \<Rightarrow> (customersFilters heap \<times> ref) option" where
  "customersFilters_ByChatGroupIDs h cf values inclusive = do {
     h' \<leftarrow> assign h cf (\<lambda>c. c\<lparr>ChatGroupIDs := Some (NewIntegerFilter values inclusive)\<rparr>);
     Some (h', cf)
   }"

definition customersFilters_ByChatsCount ::
  "customersFilters heap \<Rightarrow> ref \<Rightarrow> RangeFilter pointer \<Rightarrow> (customersFilters heap \<times> ref) option" where
  "customersFilters_ByChatsCount h cf ranges = do {
     h' \<leftarrow> assign h cf (\<lambda>c. c\<lparr>ChatsCount := ranges\<rparr>);
     Some (h', cf)
   }"

definition customersFilters_ByThreadsCount ::
  "customersFilters heap \<Rightarrow> ref \<Rightarrow> RangeFilter pointer \<Rightarrow> (customersFilters heap \<times> ref) option" where
  "customersFilters_ByThreadsCount h cf ranges = do {
     h' \<leftarrow> assign h cf (\<lambda>c. c\<lparr>ThreadsCount := ranges\<rparr>);
     Some (h', cf)
   }"

definition customersFilters_ByVisitsCount ::
  "customersFilters heap \<Rightarrow> ref \<Rightarrow> RangeFilter pointer \<Rightarrow> (customersFilters heap \<times> ref) option" where
  "customersFilters_ByVisitsCount h cf ranges = do {
     h' \<leftarrow> assign h cf (\<lambda>c. c\<lparr>VisitsCount := ranges\<rparr>);
     Some (h', cf)
   }"

definition customersFilters_ByCreationTime ::
  "customersFilters heap \<Rightarrow> ref \<Rightarrow> DateRangeFilter pointer \<Rightarrow>
   (customersFilters heap \<times> ref) option" where
  "customersFilters_ByCreationTime h cf timeRange = do {
     h' \<leftarrow> assign h cf (\<lambda>c. c\<lparr>CreatedAt := timeRange\<rparr>);
     Some (h', cf)
   }"

definition customersFilters_ByAgentsLastActivity ::
  "customersFilters heap \<Rightarrow> ref \<Rightarrow> DateRangeFilter pointer \<Rightarrow>
   (customersFilters heap \<times> ref) option" where
  "customersFilters_ByAgentsLastActivity h cf timeRange = do {
     h' \<leftarrow> assign h cf (\<lambda>c. c\<lparr>AgentLastEventCreatedAt := timeRange\<rparr>);
     Some (h', cf)
   }"

definition customersFilters_ByCustomersLastActivity ::
  "customersFilters heap \<Rightarrow> ref \<Rightarrow> DateRangeFilter pointer \<Rightarrow>
   (customersFilters heap \<times> ref) option" where
  "customersFilters_ByCustomersLastActivity h cf timeRange = do {
     h' \<leftarrow> assign h cf (\<lambda>c. c\<lparr>CustomerLastEventCreatedAt := timeRange\<rparr>);
     Some (h', cf)
   }"

definition customersFilters_WithIncludeCustomersWithoutChats ::
  "customersFilters heap \<Rightarrow> ref \<Rightarrow> bool \<Rightarrow> (customersFilters heap \<times> ref) option" where
  "customersFilters_WithIncludeCustomersWithoutChats h cf v = do {
     h' \<leftarrow> assign h cf (\<lambda>c. c\<lparr>IncludeCustomersWithoutChats := Some v\<rparr>);
     Some (h', cf)
   }"

section \<open>Chats filters\<close>

record 'v chatsFilters =
  IncludeActive :: bool
  IncludeChatsWithoutThreads :: bool
  GroupIDs :: "uint slice"
  Properties :: "'v PropertiesFilters"

definition marshal_chatsFilters :: "('v \<Rightarrow> json option) \<Rightarrow> 'v chatsFilters \<Rightarrow> json option" where
  "marshal_chatsFilters enc cf = object
     [omitempty (\<not> IncludeActive cf) ''include_active'' (enc_bool (IncludeActive cf)),
      omitempty (\<not> IncludeChatsWithoutThreads cf) ''include_chats_without_threads''
        (enc_bool (IncludeChatsWithoutThreads cf)),
      omitempty (len (GroupIDs cf) = 0) ''group_ids'' (enc_slice enc_uint (GroupIDs cf)),
      omitempty (len_map (Properties cf) = 0) ''properties''
        (marshal_PropertiesFilters enc (Properties cf))]"

definition NewChatsFilters :: "'v chatsFilters heap \<Rightarrow> 'v chatsFilters heap \<times> ref" where
  "NewChatsFilters h =
     new h \<lparr>IncludeActive = True, IncludeChatsWithoutThreads = False, GroupIDs = None,
            Properties = None\<rparr>"

definition chatsFilters_WithoutActiveChats ::
  "'v chatsFilters heap \<Rightarrow> ref \<Rightarrow> ('v chatsFilters heap \<times> ref) option" where
  "chatsFilters_WithoutActiveChats h cf = do {
     h' \<leftarrow> assign h cf (\<lambda>c. c\<lparr>IncludeActive := False\<rparr>);
     Some (h', cf)
   }"

definition chatsFilters_WithChatsWithoutThreads ::
  "'v chatsFilters heap \<Rightarrow> ref \<Rightarrow> ('v chatsFilters heap \<times> ref) option" where
  "chatsFilters_WithChatsWithoutThreads h cf = do {
     h' \<leftarrow> assign h cf (\<lambda>c. c\<lparr>IncludeChatsWithoutThreads := True\<rparr>);
     Some (h', cf)
   }"

definition chatsFilters_ByGroups ::
  "'v chatsFilters heap \<Rightarrow> ref \<Rightarrow> uint slice \<Rightarrow> ('v chatsFilters heap \<times> ref) option" where
  "chatsFilters_ByGroups h cf groupIDs = do {
     h' \<leftarrow> assign h cf (\<lambda>c. c\<lparr>GroupIDs := groupIDs\<rparr>);
     Some (h', cf)
   }"

definition chatsFilters_ByProperties ::
  "'v chatsFilters heap \<Rightarrow> ref \<Rightarrow> 'v PropertiesFilters \<Rightarrow> ('v chatsFilters heap \<times> ref) option" where
  "chatsFilters_ByProperties h cf propsFilters = do {
     h' \<leftarrow> assign h cf (\<lambda>c. c\<lparr>Properties := propsFilters\<rparr>);
     Some (h', cf)
   }"

section \<open>Threads filters\<close>

record threadsFilters =
  From :: string
  To :: string

definition marshal_threadsFilters :: "threadsFilters \<Rightarrow> json option" where
  "marshal_threadsFilters tf = object
     [omitempty (From tf = []) ''from'' (enc_string (From tf)),
      omitempty (To tf = []) ''to'' (enc_string (To tf))]"

definition NewThreadsFilters :: "threadsFilters heap \<Rightarrow> threadsFilters heap \<times> ref" where
  "NewThreadsFilters h = new h \<lparr>From = [], To = []\<rparr>"

definition threadsFilters_FromDate ::
  "threadsFilters heap \<Rightarrow> ref \<Rightarrow> string \<Rightarrow> (threadsFilters heap \<times> ref) option" where
  "threadsFilters_FromDate h tf date = do {
     h' \<leftarrow> assign h tf (\<lambda>t. t\<lparr>From := date\<rparr>);
     Some (h', tf)
   }"

definition threadsFilters_ToDate ::
  "threadsFilters heap \<Rightarrow> ref \<Rightarrow> string \<Rightarrow> (threadsFilters heap \<times> ref) option" where
  "threadsFilters_ToDate h tf date = do {
     h' \<leftarrow> assign h tf (\<lambda>t. t\<lparr>To := date\<rparr>);
     Some (h', tf)
   }"

section \<open>Helper facts\<close>

lemma assign_valid: "i < length h \<Longrightarrow> assign h (Some i) f = Some (h[i := f (h ! i)])"
  by (simp add: assign_def)

lemma load_valid: "i < length h \<Longrightarrow> load h (Some i) = Some (h ! i)"
  by (simp add: load_def)

text \<open>
  Each mutator, called on an allocated aggregate: the new heap differs from the old one at
  the receiver's address only, and there in the one field the mutator assigns.
\<close>

lemma archives_mutators:
  fixes h :: "'v archivesFilters heap"
  assumes "i < length h"
  shows "archivesFilters_ByAgents h (Some i) inc vals r =
           Some (h[i := (h ! i)\<lparr>Agents := Some (NewPropertyFilterType inc vals r)\<rparr>], Some i)"
    and "archivesFilters_ByGroups h (Some i) g =
           Some (h[i := (h ! i)\<lparr>archivesFilters.GroupIDs := g\<rparr>], Some i)"
    and "archivesFilters_ByQuery h (Some i) q =
           Some (h[i := (h ! i)\<lparr>Query := q\<rparr>], Some i)"
    and "archivesFilters_FromDate h (Some i) d =
           Some (h[i := (h ! i)\<lparr>archivesFilters.From := d\<rparr>], Some i)"
    and "archivesFilters_ToDate h (Some i) d =
           Some (h[i := (h ! i)\<lparr>archivesFilters.To := d\<rparr>], Some i)"
    and "archivesFilters_ByProperties h (Some i) ps =
           Some (h[i := (h ! i)\<lparr>archivesFilters.Properties := ps\<rparr>], Some i)"
    and "archivesFilters_BySurveys h (Some i) ss =
           Some (h[i := (h ! i)\<lparr>Surveys := ss\<rparr>], Some i)"
    and "archivesFilters_ByTags h (Some i) inc vals r =
           Some (h[i := (h ! i)\<lparr>Tags := Some (NewPropertyFilterType inc vals r)\<rparr>], Some i)"
    and "archivesFilters_BySales h (Some i) inc vals r =
           Some (h[i := (h ! i)\<lparr>Sales := Some (NewPropertyFilterType inc vals r)\<rparr>], Some i)"
    and "archivesFilters_ByGoals h (Some i) inc vals r =
           Some (h[i := (h ! i)\<lparr>Goals := Some (NewPropertyFilterType inc vals r)\<rparr>], Some i)"
    and "archivesFilters_ByEventTypes h (Some i) inc evals r =
           Some (h[i := (h ! i)\<lparr>EventTypes := Some
             \<lparr>eventTypesFilter.Values = (if inc then evals else None),
              eventTypesFilter.ExcludeValues = (if inc then None else evals),
              eventTypesFilter.RequireEveryValue = Some r\<rparr>\<rparr>], Some i)"
  using assms
  by (simp_all add: archivesFilters_ByAgents_def archivesFilters_ByGroups_def
      archivesFilters_ByQuery_def archivesFilters_FromDate_def archivesFilters_ToDate_def
      archivesFilters_ByProperties_def archivesFilters_BySurveys_def archivesFilters_ByTags_def
      archivesFilters_BySales_def archivesFilters_ByGoals_def archivesFilters_ByEventTypes_def
      assign_valid load_valid)

lemma customers_mutators:
  assumes "i < length h"
  shows "customersFilters_ByCountry h (Some i) vs inc =
           Some (h[i := (h ! i)\<lparr>Country := Some (NewStringFilter vs inc)\<rparr>], Some i)"
    and "customersFilters_ByEmail h (Some i) vs inc =
           Some (h[i := (h ! i)\<lparr>Email := Some (NewStringFilter vs inc)\<rparr>], Some i)"
    and "customersFilters_ByName h (Some i) vs inc =
           Some (h[i := (h ! i)\<lparr>Name := Some (NewStringFilter vs inc)\<rparr>], Some i)"
    and "customersFilters_ByID h (Some i) vs inc =
           Some (h[i := (h ! i)\<lparr>CustomerID := Some (NewStringFilter vs inc)\<rparr>], Some i)"
    and "customersFilters_ByChatGroupIDs h (Some i) ws inc =
           Some (h[i := (h ! i)\<lparr>ChatGroupIDs := Some (NewIntegerFilter ws inc)\<rparr>], Some i)"
    and "customersFilters_ByChatsCount h (Some i) rg =
           Some (h[i := (h ! i)\<lparr>ChatsCount := rg\<rparr>], Some i)"
    and "customersFilters_ByThreadsCount h (Some i) rg =
           Some (h[i := (h ! i)\<lparr>ThreadsCount := rg\<rparr>], Some i)"
    and "customersFilters_ByVisitsCount h (Some i) rg =
           Some (h[i := (h ! i)\<lparr>VisitsCount := rg\<rparr>], Some i)"
    and "customersFilters_ByCreationTime h (Some i) tr =
           Some (h[i := (h ! i)\<lparr>CreatedAt := tr\<rparr>], Some i)"
    and "customersFilters_ByAgentsLastActivity h (Some i) tr =
           Some (h[i := (h ! i)\<lparr>AgentLastEventCreatedAt := tr\<rparr>], Some i)"
    and "customersFilters_ByCustomersLastActivity h (Some i) tr =
           Some (h[i := (h ! i)\<lparr>CustomerLastEventCreatedAt := tr\<rparr>], Some i)"
    and "customersFilters_WithIncludeCustomersWithoutChats h (Some i) b =
           Some (h[i := (h ! i)\<lparr>IncludeCustomersWithoutChats := Some b\<rparr>], Some i)"
  using assms
  by (simp_all add: customersFilters_ByCountry_def customersFilters_ByEmail_def
      customersFilters_ByName_def customersFilters_ByID_def customersFilters_ByChatGroupIDs_def
      customersFilters_ByChatsCount_def customersFilters_ByThreadsCount_def
      customersFilters_ByVisitsCount_def customersFilters_ByCreationTime_def
      customersFilters_ByAgentsLastActivity_def customersFilters_ByCustomersLastActivity_def
      customersFilters_WithIncludeCustomersWithoutChats_def assign_valid)

lemma chats_mutators:
  fixes h :: "'v chatsFilters heap"
  assumes "i < length h"
  shows "chatsFilters_WithoutActiveChats h (Some i) =
           Some (h[i := (h ! i)\<lparr>IncludeActive := False\<rparr>], Some i)"
    and "chatsFilters_WithChatsWithoutThreads h (Some i) =
           Some (h[i := (h ! i)\<lparr>IncludeChatsWithoutThreads := True\<rparr>], Some i)"
    and "chatsFilters_ByGroups h (Some i) g =
           Some (h[i := (h ! i)\<lparr>chatsFilters.GroupIDs := g\<rparr>], Some i)"
    and "chatsFilters_ByProperties h (Some i) ps =
           Some (h[i := (h ! i)\<lparr>chatsFilters.Properties := ps\<rparr>], Some i)"
  using assms
  by (simp_all add: chatsFilters_WithoutActiveChats_def chatsFilters_WithChatsWithoutThreads_def
      chatsFilters_ByGroups_def chatsFilters_ByProperties_def assign_valid)

lemma threads_mutators:
  assumes "i < length h"
  shows "threadsFilters_FromDate h (Some i) d =
           Some (h[i := (h ! i)\<lparr>threadsFilters.From := d\<rparr>], Some i)"
    and "threadsFilters_ToDate h (Some i) d =
           Some (h[i := (h ! i)\<lparr>threadsFilters.To := d\<rparr>], Some i)"
  using assms
  by (simp_all add: threadsFilters_FromDate_def threadsFilters_ToDate_def assign_valid)

lemma those_Some: "those (map (\<lambda>x. Some (f x)) xs) = Some (map f xs)"
  by (induction xs) simp_all

lemma appendString_Nil_iff: "appendString k s = [] \<longleftrightarrow> s = []"
  by (cases s) (simp_all split: option.split)

lemma Nil_appendString_iff: "[] = appendString k s \<longleftrightarrow> s = []"
  using appendString_Nil_iff [of k s] by auto

lemma enc_string_invalid_byte:
  "enc_string [CHR 0xFF] = Some (JString [CHR 0xEF, CHR 0xBF, CHR 0xBD])"
  by (simp add: enc_string_def DecodeRuneInString_def first_def)

lemma enc_slice_string:
  "enc_slice enc_string (Some xs) = Some (JArray (map (\<lambda>s. JString (appendString 0 s)) xs))"
  unfolding enc_slice_def enc_string_def by (simp add: those_Some)

lemma enc_slice_uint: "enc_slice enc_uint (Some xs) = Some (JArray (map (\<lambda>w. JNumber (uint w)) xs))"
  unfolding enc_slice_def enc_uint_def by (simp add: those_Some)

lemmas enc_defs = object_def omitempty_def field_def enc_bool_def enc_string_def enc_ptr_def
  len_def len_map_def

lemma ByThreads_valid:
  assumes "i < length h"
  shows "archivesFilters_ByThreads h (Some i) t =
     Some (h[i := \<lparr>Agents = None, archivesFilters.GroupIDs = None,
        archivesFilters.From = [], archivesFilters.To = [],
        archivesFilters.Properties = None, Tags = None, Sales = None,
        Goals = None, Surveys = None, ThreadIDs = t, Query = [],
        EventTypes = None\<rparr>], Some i)"
  using assms by (simp add: archivesFilters_ByThreads_def assign_valid)

text \<open>
  The range filters and the customers aggregate have no \<^verbatim>\<open>interface{}\<close> value: their
  encoding never fails, and its result can be written out.
\<close>

lemma sint64_eq_0: "sint (w :: 64 word) = 0 \<longleftrightarrow> w = 0"
  by (simp add: signed_eq_0_iff)

lemma marshal_RangeFilter_eq:
  "marshal_RangeFilter rf = Some (JObject (
      (if RangeFilter.LTE rf = 0 then [] else [(''lte'', JNumber (sint (RangeFilter.LTE rf)))]) @
      (if RangeFilter.LT rf = 0 then [] else [(''lt'', JNumber (sint (RangeFilter.LT rf)))]) @
      (if RangeFilter.GTE rf = 0 then [] else [(''gte'', JNumber (sint (RangeFilter.GTE rf)))]) @
      (if RangeFilter.GT rf = 0 then [] else [(''gt'', JNumber (sint (RangeFilter.GT rf)))]) @
      (if RangeFilter.EQ rf = 0 then [] else [(''eq'', JNumber (sint (RangeFilter.EQ rf)))])))"
  by (simp add: marshal_RangeFilter_def enc_defs enc_int_def)

lemma marshal_DateRangeFilter_eq:
  "marshal_DateRangeFilter drf = Some (JObject (
      (if DateRangeFilter.LTE drf = [] then []
       else [(''lte'', JString (appendString 0 (DateRangeFilter.LTE drf)))]) @
      (if DateRangeFilter.LT drf = [] then []
       else [(''lt'', JString (appendString 0 (DateRangeFilter.LT drf)))]) @
      (if DateRangeFilter.GTE drf = [] then []
       else [(''gte'', JString (appendString 0 (DateRangeFilter.GTE drf)))]) @
      (if DateRangeFilter.GT drf = [] then []
       else [(''gt'', JString (appendString 0 (DateRangeFilter.GT drf)))]) @
      (if DateRangeFilter.EQ drf = [] then []
       else [(''eq'', JString (appendString 0 (DateRangeFilter.EQ drf)))])))"
  by (simp add: marshal_DateRangeFilter_def enc_defs)

lemma RangeFilter_members:
  "\<exists>ms. marshal_RangeFilter rf = Some (JObject ms)
     \<and> (\<forall>k. (k, JNumber 0) \<notin> set ms)
     \<and> (''lte'' \<in> fst ` set ms) = (RangeFilter.LTE rf \<noteq> 0)
     \<and> (''lt'' \<in> fst ` set ms) = (RangeFilter.LT rf \<noteq> 0)
     \<and> (''gte'' \<in> fst ` set ms) = (RangeFilter.GTE rf \<noteq> 0)
     \<and> (''gt'' \<in> fst ` set ms) = (RangeFilter.GT rf \<noteq> 0)
     \<and> (''eq'' \<in> fst ` set ms) = (RangeFilter.EQ rf \<noteq> 0)"
  unfolding marshal_RangeFilter_eq by (simp add: sint64_eq_0)

lemma DateRangeFilter_members:
  "\<exists>ms. marshal_DateRangeFilter drf = Some (JObject ms)
     \<and> (\<forall>k. (k, JString []) \<notin> set ms)
     \<and> (''lte'' \<in> fst ` set ms) = (DateRangeFilter.LTE drf \<noteq> [])
     \<and> (''lt'' \<in> fst ` set ms) = (DateRangeFilter.LT drf \<noteq> [])
     \<and> (''gte'' \<in> fst ` set ms) = (DateRangeFilter.GTE drf \<noteq> [])
     \<and> (''gt'' \<in> fst ` set ms) = (DateRangeFilter.GT drf \<noteq> [])
     \<and> (''eq'' \<in> fst ` set ms) = (DateRangeFilter.EQ drf \<noteq> [])"
  unfolding marshal_DateRangeFilter_eq
  by (simp add: appendString_Nil_iff Nil_appendString_iff)

lemma omitempty_ptr:
  assumes "\<And>x. enc x \<noteq> None"
  shows "omitempty (p = None) k (enc_ptr enc p) =
           Some (case p of None \<Rightarrow> [] | Some x \<Rightarrow> [(k, the (enc x))])"
  using assms by (cases p) (auto simp: omitempty_def field_def enc_ptr_def)

lemma enc_slice_int: "enc_slice enc_int (Some xs) = Some (JArray (map (\<lambda>w. JNumber (sint w)) xs))"
  unfolding enc_slice_def enc_int_def by (simp add: those_Some)

lemma marshal_stringFilter_total: "marshal_stringFilter sf \<noteq> None"
  by (cases "stringFilter.Values sf"; cases "stringFilter.ExcludeValues sf")
     (simp_all add: marshal_stringFilter_def enc_defs enc_slice_string)

lemma marshal_integerFilter_total: "marshal_integerFilter f \<noteq> None"
  by (cases "integerFilter.Values f"; cases "integerFilter.ExcludeValues f")
     (simp_all add: marshal_integerFilter_def enc_defs enc_slice_int)

lemma marshal_RangeFilter_total: "marshal_RangeFilter rf \<noteq> None"
  by (simp add: marshal_RangeFilter_eq)

lemma marshal_DateRangeFilter_total: "marshal_DateRangeFilter rf \<noteq> None"
  by (simp add: marshal_DateRangeFilter_eq)

lemma enc_bool_total: "enc_bool b \<noteq> None"
  by (simp add: enc_bool_def)

lemma marshal_customersFilters_eq:
  "marshal_customersFilters cf = Some (JObject (
     (case Country cf of None \<Rightarrow> [] | Some x \<Rightarrow>
        [(''country'', the (marshal_stringFilter x))]) @
     (case Email cf of None \<Rightarrow> [] | Some x \<Rightarrow>
        [(''email'', the (marshal_stringFilter x))]) @
     (case Name cf of None \<Rightarrow> [] | Some x \<Rightarrow>
        [(''name'', the (marshal_stringFilter x))]) @
     (case CustomerID cf of None \<Rightarrow> [] | Some x \<Rightarrow>
        [(''customer_id'', the (marshal_stringFilter x))]) @
     (case ChatGroupIDs cf of None \<Rightarrow> [] | Some x \<Rightarrow>
        [(''chat_group_ids'', the (marshal_integerFilter x))]) @
     (case ChatsCount cf of None \<Rightarrow> [] | Some x \<Rightarrow>
        [(''chats_count'', the (marshal_RangeFilter x))]) @
     (case ThreadsCount cf of None \<Rightarrow> [] | Some x \<Rightarrow>
        [(''threads_count'', the (marshal_RangeFilter x))]) @
     (case VisitsCount cf of None \<Rightarrow> [] | Some x \<Rightarrow>
        [(''visits_count'', the (marshal_RangeFilter x))]) @
     (case CreatedAt cf of None \<Rightarrow> [] | Some x \<Rightarrow>
        [(''created_at'', the (marshal_DateRangeFilter x))]) @
     (case AgentLastEventCreatedAt cf of None \<Rightarrow> [] | Some x \<Rightarrow>
        [(''agent_last_event_created_at'', the (marshal_DateRangeFilter x))]) @
     (case CustomerLastEventCreatedAt cf of None \<Rightarrow> [] | Some x \<Rightarrow>
        [(''customer_last_event_created_at'', the (marshal_DateRangeFilter x))]) @
     (case IncludeCustomersWithoutChats cf of None \<Rightarrow> [] | Some x \<Rightarrow>
        [(''include_customers_without_chats'', the (enc_bool x))])))"
  unfolding marshal_customersFilters_def
  by (simp add: object_def omitempty_ptr marshal_stringFilter_total marshal_integerFilter_total
        marshal_RangeFilter_total marshal_DateRangeFilter_total enc_bool_total)

lemma map_of_ptr_field:
  "k \<noteq> k' \<Longrightarrow> map_of ((case p of None \<Rightarrow> [] | Some x \<Rightarrow> [(k', f x)]) @ rest) k = map_of rest k"
  by (cases p) simp_all

lemma the_marshal_RangeFilter: "Some (the (marshal_RangeFilter rf)) = marshal_RangeFilter rf"
  using marshal_RangeFilter_total [of rf] by simp

lemma payload_chats_count:
  assumes "i < length h"
  shows "\<exists>obj. do { (h1, cf1) \<leftarrow> customersFilters_ByChatsCount h (Some i) (Some rf);
                     Marshal marshal_customersFilters h1 cf1 } = Some (JObject obj)
           \<and> map_of obj ''chats_count'' = marshal_RangeFilter rf"
  using assms
  by (simp add: customers_mutators Marshal_def load_valid marshal_customersFilters_eq
        map_of_ptr_field the_marshal_RangeFilter del: map_of_append)

lemma payload_threads_count:
  assumes "i < length h"
  shows "\<exists>obj. do { (h1, cf1) \<leftarrow> customersFilters_ByThreadsCount h (Some i) (Some rf);
                     Marshal marshal_customersFilters h1 cf1 } = Some (JObject obj)
           \<and> map_of obj ''threads_count'' = marshal_RangeFilter rf"
  using assms
  by (simp add: customers_mutators Marshal_def load_valid marshal_customersFilters_eq
        map_of_ptr_field the_marshal_RangeFilter del: map_of_append)

lemma payload_visits_count:
  assumes "i < length h"
  shows "\<exists>obj. do { (h1, cf1) \<leftarrow> customersFilters_ByVisitsCount h (Some i) (Some rf);
                     Marshal marshal_customersFilters h1 cf1 } = Some (JObject obj)
           \<and> map_of obj ''visits_count'' = marshal_RangeFilter rf"
  using assms
  by (simp add: customers_mutators Marshal_def load_valid marshal_customersFilters_eq
        map_of_ptr_field the_marshal_RangeFilter del: map_of_append)

section \<open>The property filter constructor\<close>

text \<open>
  C2. With a nil value list, \<^verbatim>\<open>NewPropertyFilterType\<close> sets \<^verbatim>\<open>Exists\<close> to the \<^verbatim>\<open>includes\<close>
  flag and nothing else: both value sets stay nil and \<^verbatim>\<open>RequireEveryValue\<close> stays nil,
  whatever the \<^verbatim>\<open>requireEveryValue\<close> argument is.
\<close>

theorem NewPropertyFilterType_nil:
  "NewPropertyFilterType includes None requireEveryValue =
     \<lparr>Exists = Some includes, propertyFilterType.Values = None,
      propertyFilterType.ExcludeValues = None,
      propertyFilterType.RequireEveryValue = None\<rparr>"
  by (simp add: NewPropertyFilterType_def)

text \<open>
  C3. With a non-nil value list \<open>V\<close> (of any length), \<^verbatim>\<open>includes = true\<close> gives
  \<^verbatim>\<open>Values == V\<close> and \<^verbatim>\<open>includes = false\<close> gives \<^verbatim>\<open>ExcludeValues == V\<close>; in both cases
  \<^verbatim>\<open>RequireEveryValue\<close> points to \<open>r\<close>, the other value set is nil and \<^verbatim>\<open>Exists\<close> is nil.
\<close>

theorem NewPropertyFilterType_values:
  "NewPropertyFilterType True (Some V) r =
     \<lparr>Exists = None, propertyFilterType.Values = Some V,
      propertyFilterType.ExcludeValues = None,
      propertyFilterType.RequireEveryValue = Some r\<rparr>
   \<and> NewPropertyFilterType False (Some V) r =
     \<lparr>Exists = None, propertyFilterType.Values = None,
      propertyFilterType.ExcludeValues = Some V,
      propertyFilterType.RequireEveryValue = Some r\<rparr>"
  by (simp add: NewPropertyFilterType_def)

section \<open>The string and integer filter constructors\<close>

text \<open>
  C6, as stated, fails for the nil list: the constructors assign nil to the chosen side,
  so neither \<^verbatim>\<open>Values\<close> nor \<^verbatim>\<open>ExcludeValues\<close> of the result is populated, where the claim
  has exactly one of them populated for every list.
\<close>

theorem New_filters_nil_counterexample:
  "\<not> ((stringFilter.Values (NewStringFilter None True) \<noteq> None)
        \<noteq> (stringFilter.ExcludeValues (NewStringFilter None True) \<noteq> None))
   \<and> \<not> ((integerFilter.Values (NewIntegerFilter None False) \<noteq> None)
        \<noteq> (integerFilter.ExcludeValues (NewIntegerFilter None False) \<noteq> None))"
  by (simp add: NewStringFilter_def NewIntegerFilter_def)

text \<open>
  C6, amended. \<^verbatim>\<open>NewStringFilter\<close> and \<^verbatim>\<open>NewIntegerFilter\<close> are total, and for every list
  \<open>V\<close> (nil, empty or not) they assign it to one side only: \<^verbatim>\<open>Values == V\<close> with
  \<^verbatim>\<open>ExcludeValues\<close> nil when \<^verbatim>\<open>inclusive\<close> is true, \<^verbatim>\<open>ExcludeValues == V\<close> with \<^verbatim>\<open>Values\<close>
  nil when it is false. For a non-nil list exactly one of the two fields of the result is
  non-nil; for the nil list both are nil.
\<close>

theorem New_filters_one_side:
  "NewStringFilter V True =
     \<lparr>stringFilter.Values = V, stringFilter.ExcludeValues = None\<rparr>
   \<and> NewStringFilter V False =
     \<lparr>stringFilter.Values = None, stringFilter.ExcludeValues = V\<rparr>
   \<and> NewIntegerFilter W True =
     \<lparr>integerFilter.Values = W, integerFilter.ExcludeValues = None\<rparr>
   \<and> NewIntegerFilter W False =
     \<lparr>integerFilter.Values = None, integerFilter.ExcludeValues = W\<rparr>
   \<and> (stringFilter.Values (NewStringFilter (Some xs) inclusive) = None)
       \<noteq> (stringFilter.ExcludeValues (NewStringFilter (Some xs) inclusive) = None)
   \<and> (integerFilter.Values (NewIntegerFilter (Some ws) inclusive) = None)
       \<noteq> (integerFilter.ExcludeValues (NewIntegerFilter (Some ws) inclusive) = None)
   \<and> stringFilter.Values (NewStringFilter None inclusive) = None
   \<and> stringFilter.ExcludeValues (NewStringFilter None inclusive) = None
   \<and> integerFilter.Values (NewIntegerFilter None inclusive) = None
   \<and> integerFilter.ExcludeValues (NewIntegerFilter None inclusive) = None"
  by (cases inclusive) (simp_all add: NewStringFilter_def NewIntegerFilter_def)

section \<open>The thread-ID mutator of the archives aggregate\<close>

text \<open>
  C1. Whatever the aggregate behind the receiver holds, \<^verbatim>\<open>ByThreads(t)\<close> does not fail,
  returns the receiver, and leaves behind it an aggregate whose \<^verbatim>\<open>ThreadIDs\<close> is \<open>t\<close> and
  whose other fields all have their zero value. Nothing else in the heap changes.
\<close>

theorem ByThreads_resets:
  assumes "i < length h"
  shows "archivesFilters_ByThreads h (Some i) t =
     Some (h[i := \<lparr>Agents = None, archivesFilters.GroupIDs = None, archivesFilters.From = [],
                   archivesFilters.To = [], archivesFilters.Properties = None, Tags = None,
                   Sales = None, Goals = None, Surveys = None, ThreadIDs = t, Query = [],
                   EventTypes = None\<rparr>], Some i)"
  using assms by (simp add: archivesFilters_ByThreads_def assign_valid)

text \<open>
  The instance of C1 at an aggregate that had an agents filter, groups, both dates, a
  query and event types set.
\<close>

theorem ByThreads_resets_witness:
  "(0::nat) < length
     [\<lparr>Agents = Some (NewPropertyFilterType True (Some [()]) False),
       archivesFilters.GroupIDs = Some [7], archivesFilters.From = ''2020-01-01'',
       archivesFilters.To = ''2021-01-01'', archivesFilters.Properties = None, Tags = None,
       Sales = None, Goals = None, Surveys = None, ThreadIDs = Some [''old''],
       Query = ''hello'',
       EventTypes = Some \<lparr>eventTypesFilter.Values = Some [''message''],
         eventTypesFilter.ExcludeValues = None,
         eventTypesFilter.RequireEveryValue = Some True\<rparr>\<rparr>]
   \<and> archivesFilters_ByThreads
     [\<lparr>Agents = Some (NewPropertyFilterType True (Some [()]) False),
       archivesFilters.GroupIDs = Some [7], archivesFilters.From = ''2020-01-01'',
       archivesFilters.To = ''2021-01-01'', archivesFilters.Properties = None, Tags = None,
       Sales = None, Goals = None, Surveys = None, ThreadIDs = Some [''old''],
       Query = ''hello'',
       EventTypes = Some \<lparr>eventTypesFilter.Values = Some [''message''],
         eventTypesFilter.ExcludeValues = None,
         eventTypesFilter.RequireEveryValue = Some True\<rparr>\<rparr>]
     (Some 0) (Some [''t1'', ''t2''])
   = Some ([\<lparr>Agents = None, archivesFilters.GroupIDs = None, archivesFilters.From = [],
             archivesFilters.To = [], archivesFilters.Properties = None, Tags = None,
             Sales = None, Goals = None, Surveys = None, ThreadIDs = Some [''t1'', ''t2''],
             Query = [], EventTypes = None\<rparr>], Some 0)"
  using ByThreads_resets [of 0
     "[\<lparr>Agents = Some (NewPropertyFilterType True (Some [()]) False),
       archivesFilters.GroupIDs = Some [7], archivesFilters.From = ''2020-01-01'',
       archivesFilters.To = ''2021-01-01'', archivesFilters.Properties = None, Tags = None,
       Sales = None, Goals = None, Surveys = None, ThreadIDs = Some [''old''],
       Query = ''hello'',
       EventTypes = Some \<lparr>eventTypesFilter.Values = Some [''message''],
         eventTypesFilter.ExcludeValues = None,
         eventTypesFilter.RequireEveryValue = Some True\<rparr>\<rparr>]"
     "Some [''t1'', ''t2'']"]
  by simp

section \<open>The other mutators\<close>

text \<open>
  C8. Every mutator other than the archives \<^verbatim>\<open>ByThreads\<close>, on any allocated aggregate of
  its kind and for any arguments: the call does not fail, it returns the receiver, and the
  aggregate behind the receiver is the old one with the mutator's own field overwritten;
  every other field, and every other aggregate of the heap, is as before. The 11 archives
  mutators, the 12 customers mutators, the 4 chats mutators and the 2 threads mutators are
  listed in the order of the source.
\<close>

theorem mutators_overwrite_one_field:
  fixes ha :: "'v archivesFilters heap" and hc :: "customersFilters heap"
    and hch :: "'w chatsFilters heap" and ht :: "threadsFilters heap"
  assumes "ia < length ha" and "ic < length hc" and "ich < length hch" and "it < length ht"
  shows
   "archivesFilters_ByAgents ha (Some ia) inc vals r =
      Some (ha[ia := (ha ! ia)\<lparr>Agents := Some (NewPropertyFilterType inc vals r)\<rparr>], Some ia)
  \<and> archivesFilters_ByGroups ha (Some ia) g =
      Some (ha[ia := (ha ! ia)\<lparr>archivesFilters.GroupIDs := g\<rparr>], Some ia)
  \<and> archivesFilters_ByQuery ha (Some ia) q =
      Some (ha[ia := (ha ! ia)\<lparr>Query := q\<rparr>], Some ia)
  \<and> archivesFilters_FromDate ha (Some ia) d =
      Some (ha[ia := (ha ! ia)\<lparr>archivesFilters.From := d\<rparr>], Some ia)
  \<and> archivesFilters_ToDate ha (Some ia) d =
      Some (ha[ia := (ha ! ia)\<lparr>archivesFilters.To := d\<rparr>], Some ia)
  \<and> archivesFilters_ByProperties ha (Some ia) ps =
      Some (ha[ia := (ha ! ia)\<lparr>archivesFilters.Properties := ps\<rparr>], Some ia)
  \<and> archivesFilters_BySurveys ha (Some ia) ss =
      Some (ha[ia := (ha ! ia)\<lparr>Surveys := ss\<rparr>], Some ia)
  \<and> archivesFilters_ByTags ha (Some ia) inc vals r =
      Some (ha[ia := (ha ! ia)\<lparr>Tags := Some (NewPropertyFilterType inc vals r)\<rparr>], Some ia)
  \<and> archivesFilters_BySales ha (Some ia) inc vals r =
      Some (ha[ia := (ha ! ia)\<lparr>Sales := Some (NewPropertyFilterType inc vals r)\<rparr>], Some ia)
  \<and> archivesFilters_ByGoals ha (Some ia) inc vals r =
      Some (ha[ia := (ha ! ia)\<lparr>Goals := Some (NewPropertyFilterType inc vals r)\<rparr>], Some ia)
  \<and> archivesFilters_ByEventTypes ha (Some ia) inc evals r =
      Some (ha[ia := (ha ! ia)\<lparr>EventTypes := Some
        \<lparr>eventTypesFilter.Values = (if inc then evals else None),
         eventTypesFilter.ExcludeValues = (if inc then None else evals),
         eventTypesFilter.RequireEveryValue = Some r\<rparr>\<rparr>], Some ia)
  \<and> customersFilters_ByCountry hc (Some ic) vs inc =
      Some (hc[ic := (hc ! ic)\<lparr>Country := Some (NewStringFilter vs inc)\<rparr>], Some ic)
  \<and> customersFilters_ByEmail hc (Some ic) vs inc =
      Some (hc[ic := (hc ! ic)\<lparr>Email := Some (NewStringFilter vs inc)\<rparr>], Some ic)
  \<and> customersFilters_ByName hc (Some ic) vs inc =
      Some (hc[ic := (hc ! ic)\<lparr>Name := Some (NewStringFilter vs inc)\<rparr>], Some ic)
  \<and> customersFilters_ByID hc (Some ic) vs inc =
      Some (hc[ic := (hc ! ic)\<lparr>CustomerID := Some (NewStringFilter vs inc)\<rparr>], Some ic)
  \<and> customersFilters_ByChatGroupIDs hc (Some ic) ws inc =
      Some (hc[ic := (hc ! ic)\<lparr>ChatGroupIDs := Some (NewIntegerFilter ws inc)\<rparr>], Some ic)
  \<and> customersFilters_ByChatsCount hc (Some ic) rg =
      Some (hc[ic := (hc ! ic)\<lparr>ChatsCount := rg\<rparr>], Some ic)
  \<and> customersFilters_ByThreadsCount hc (Some ic) rg =
      Some (hc[ic := (hc ! ic)\<lparr>ThreadsCount := rg\<rparr>], Some ic)
  \<and> customersFilters_ByVisitsCount hc (Some ic) rg =
      Some (hc[ic := (hc ! ic)\<lparr>VisitsCount := rg\<rparr>], Some ic)
  \<and> customersFilters_ByCreationTime hc (Some ic) tr =
      Some (hc[ic := (hc ! ic)\<lparr>CreatedAt := tr\<rparr>], Some ic)
  \<and> customersFilters_ByAgentsLastActivity hc (Some ic) tr =
      Some (hc[ic := (hc ! ic)\<lparr>AgentLastEventCreatedAt := tr\<rparr>], Some ic)
  \<and> customersFilters_ByCustomersLastActivity hc (Some ic) tr =
      Some (hc[ic := (hc ! ic)\<lparr>CustomerLastEventCreatedAt := tr\<rparr>], Some ic)
  \<and> customersFilters_WithIncludeCustomersWithoutChats hc (Some ic) b =
      Some (hc[ic := (hc ! ic)\<lparr>IncludeCustomersWithoutChats := Some b\<rparr>], Some ic)
  \<and> chatsFilters_WithoutActiveChats hch (Some ich) =
      Some (hch[ich := (hch ! ich)\<lparr>IncludeActive := False\<rparr>], Some ich)
  \<and> chatsFilters_WithChatsWithoutThreads hch (Some ich) =
      Some (hch[ich := (hch ! ich)\<lparr>IncludeChatsWithoutThreads := True\<rparr>], Some ich)
  \<and> chatsFilters_ByGroups hch (Some ich) g =
      Some (hch[ich := (hch ! ich)\<lparr>chatsFilters.GroupIDs := g\<rparr>], Some ich)
  \<and> chatsFilters_ByProperties hch (Some ich) cps =
      Some (hch[ich := (hch ! ich)\<lparr>chatsFilters.Properties := cps\<rparr>], Some ich)
  \<and> threadsFilters_FromDate ht (Some it) d =
      Some (ht[it := (ht ! it)\<lparr>threadsFilters.From := d\<rparr>], Some it)
  \<and> threadsFilters_ToDate ht (Some it) d =
      Some (ht[it := (ht ! it)\<lparr>threadsFilters.To := d\<rparr>], Some it)"
  by (intro conjI)
     (rule archives_mutators [OF assms(1)] customers_mutators [OF assms(2)]
        chats_mutators [OF assms(3)] threads_mutators [OF assms(4)])+

text \<open>
  The instance of C8 at one aggregate of each kind: the four heaps hold the aggregate at
  address 0, and one mutator of each kind is run.
\<close>

theorem mutators_overwrite_one_field_witness:
  "(0::nat) < length [\<lparr>Agents = Some (NewPropertyFilterType True (Some [()]) False),
        archivesFilters.GroupIDs = Some [7],
        archivesFilters.From = ''2020-01-01'', archivesFilters.To = [],
        archivesFilters.Properties = None, Tags = None, Sales = None,
        Goals = None, Surveys = None, ThreadIDs = Some [''old''],
        Query = ''hello'', EventTypes = None\<rparr> :: unit archivesFilters]
   \<and> (0::nat) < length (fst (NewCustomersFilters []))
   \<and> (0::nat) < length [\<lparr>IncludeActive = True, IncludeChatsWithoutThreads = False,
        chatsFilters.GroupIDs = Some [3], chatsFilters.Properties = None\<rparr> :: unit chatsFilters]
   \<and> (0::nat) < length [\<lparr>threadsFilters.From = ''2020-01-01'', threadsFilters.To = []\<rparr>]
   \<and> archivesFilters_ToDate [\<lparr>Agents = Some (NewPropertyFilterType True (Some [()]) False),
        archivesFilters.GroupIDs = Some [7],
        archivesFilters.From = ''2020-01-01'', archivesFilters.To = [],
        archivesFilters.Properties = None, Tags = None, Sales = None,
        Goals = None, Surveys = None, ThreadIDs = Some [''old''],
        Query = ''hello'', EventTypes = None\<rparr> :: unit archivesFilters] (Some 0) ''2021-01-01''
       = Some ([\<lparr>Agents = Some (NewPropertyFilterType True (Some [()]) False),
        archivesFilters.GroupIDs = Some [7],
        archivesFilters.From = ''2020-01-01'', archivesFilters.To = ''2021-01-01'',
        archivesFilters.Properties = None, Tags = None, Sales = None,
        Goals = None, Surveys = None, ThreadIDs = Some [''old''],
        Query = ''hello'', EventTypes = None\<rparr>], Some 0)
   \<and> chatsFilters_WithoutActiveChats [\<lparr>IncludeActive = True, IncludeChatsWithoutThreads = False,
        chatsFilters.GroupIDs = Some [3], chatsFilters.Properties = None\<rparr> :: unit chatsFilters]
        (Some 0)
       = Some ([\<lparr>IncludeActive = False, IncludeChatsWithoutThreads = False,
        chatsFilters.GroupIDs = Some [3], chatsFilters.Properties = None\<rparr>], Some 0)
   \<and> threadsFilters_ToDate [\<lparr>threadsFilters.From = ''2020-01-01'', threadsFilters.To = []\<rparr>]
        (Some 0) ''2021-01-01''
       = Some ([\<lparr>threadsFilters.From = ''2020-01-01'', threadsFilters.To = ''2021-01-01''\<rparr>],
               Some 0)
   \<and> map_option (\<lambda>(h, p). (map ChatsCount h, p))
        (customersFilters_ByChatsCount (fst (NewCustomersFilters [])) (Some 0)
          (Some \<lparr>RangeFilter.LTE = 5, RangeFilter.LT = 0, RangeFilter.GTE = 1,
                 RangeFilter.GT = 0, RangeFilter.EQ = 0\<rparr>))
       = Some ([Some \<lparr>RangeFilter.LTE = 5, RangeFilter.LT = 0, RangeFilter.GTE = 1,
                 RangeFilter.GT = 0, RangeFilter.EQ = 0\<rparr>], Some 0)"
  using mutators_overwrite_one_field [where ia = 0
      and ha = "[\<lparr>Agents = Some (NewPropertyFilterType True (Some [()]) False),
        archivesFilters.GroupIDs = Some [7],
        archivesFilters.From = ''2020-01-01'', archivesFilters.To = [],
        archivesFilters.Properties = None, Tags = None, Sales = None,
        Goals = None, Surveys = None, ThreadIDs = Some [''old''],
        Query = ''hello'', EventTypes = None\<rparr> :: unit archivesFilters]"
      and ic = 0 and hc = "fst (NewCustomersFilters [])"
      and ich = 0
      and hch = "[\<lparr>IncludeActive = True, IncludeChatsWithoutThreads = False,
        chatsFilters.GroupIDs = Some [3], chatsFilters.Properties = None\<rparr> :: unit chatsFilters]"
      and it = 0
      and ht = "[\<lparr>threadsFilters.From = ''2020-01-01'', threadsFilters.To = []\<rparr>]"
      and d = "''2021-01-01''"
      and rg = "Some \<lparr>RangeFilter.LTE = 5, RangeFilter.LT = 0, RangeFilter.GTE = 1,
                 RangeFilter.GT = 0, RangeFilter.EQ = 0\<rparr>"]
  by (simp add: NewCustomersFilters_def new_def)

section \<open>Mutators after the thread-ID mutator\<close>

text \<open>
  C9. \<^verbatim>\<open>ByThreads\<close> resets the aggregate when it is called and nothing keeps it exclusive
  afterwards: for every thread-ID list \<open>t\<close> and each of the 11 other archives mutators,
  the mutator called on the result of \<^verbatim>\<open>ByThreads(t)\<close> leaves \<^verbatim>\<open>ThreadIDs == t\<close> and sets
  its own field. The last conjunct is the serialisation of \<^verbatim>\<open>ByThreads(t).ByQuery(q)\<close> for
  a non-empty \<open>t\<close> and a non-empty \<open>q\<close>: an object with both \<^verbatim>\<open>thread_ids\<close> and
  \<^verbatim>\<open>query\<close>, each string written as valid UTF-8.
\<close>

theorem ByThreads_then_mutator:
  fixes h :: "'v archivesFilters heap"
  assumes "i < length h"
  shows
   "do { (h1, af) \<leftarrow> archivesFilters_ByThreads h (Some i) t;
          archivesFilters_ByAgents h1 af inc vals r } =
      Some (h[i := \<lparr>Agents = Some (NewPropertyFilterType inc vals r),
        archivesFilters.GroupIDs = None, archivesFilters.From = [],
        archivesFilters.To = [], archivesFilters.Properties = None,
        Tags = None, Sales = None, Goals = None, Surveys = None,
        ThreadIDs = t, Query = [], EventTypes = None\<rparr>], Some i)
  \<and> do { (h1, af) \<leftarrow> archivesFilters_ByThreads h (Some i) t;
          archivesFilters_ByGroups h1 af g } =
      Some (h[i := \<lparr>Agents = None, archivesFilters.GroupIDs = g, archivesFilters.From = [],
        archivesFilters.To = [], archivesFilters.Properties = None,
        Tags = None, Sales = None, Goals = None, Surveys = None,
        ThreadIDs = t, Query = [], EventTypes = None\<rparr>], Some i)
  \<and> do { (h1, af) \<leftarrow> archivesFilters_ByThreads h (Some i) t;
          archivesFilters_ByQuery h1 af q } =
      Some (h[i := \<lparr>Agents = None, archivesFilters.GroupIDs = None,
        archivesFilters.From = [], archivesFilters.To = [],
        archivesFilters.Properties = None, Tags = None, Sales = None,
        Goals = None, Surveys = None, ThreadIDs = t, Query = q,
        EventTypes = None\<rparr>], Some i)
  \<and> do { (h1, af) \<leftarrow> archivesFilters_ByThreads h (Some i) t;
          archivesFilters_FromDate h1 af d } =
      Some (h[i := \<lparr>Agents = None, archivesFilters.GroupIDs = None,
        archivesFilters.From = d, archivesFilters.To = [],
        archivesFilters.Properties = None, Tags = None, Sales = None,
        Goals = None, Surveys = None, ThreadIDs = t, Query = [],
        EventTypes = None\<rparr>], Some i)
  \<and> do { (h1, af) \<leftarrow> archivesFilters_ByThreads h (Some i) t;
          archivesFilters_ToDate h1 af d } =
      Some (h[i := \<lparr>Agents = None, archivesFilters.GroupIDs = None,
        archivesFilters.From = [], archivesFilters.To = d,
        archivesFilters.Properties = None, Tags = None, Sales = None,
        Goals = None, Surveys = None, ThreadIDs = t, Query = [],
        EventTypes = None\<rparr>], Some i)
  \<and> do { (h1, af) \<leftarrow> archivesFilters_ByThreads h (Some i) t;
          archivesFilters_ByProperties h1 af ps } =
      Some (h[i := \<lparr>Agents = None, archivesFilters.GroupIDs = None,
        archivesFilters.From = [], archivesFilters.To = [],
        archivesFilters.Properties = ps, Tags = None, Sales = None,
        Goals = None, Surveys = None, ThreadIDs = t, Query = [],
        EventTypes = None\<rparr>], Some i)
  \<and> do { (h1, af) \<leftarrow> archivesFilters_ByThreads h (Some i) t;
          archivesFilters_BySurveys h1 af ss } =
      Some (h[i := \<lparr>Agents = None, archivesFilters.GroupIDs = None,
        archivesFilters.From = [], archivesFilters.To = [],
        archivesFilters.Properties = None, Tags = None, Sales = None,
        Goals = None, Surveys = ss, ThreadIDs = t, Query = [],
        EventTypes = None\<rparr>], Some i)
  \<and> do { (h1, af) \<leftarrow> archivesFilters_ByThreads h (Some i) t;
          archivesFilters_ByTags h1 af inc vals r } =
      Some (h[i := \<lparr>Agents = None, archivesFilters.GroupIDs = None,
        archivesFilters.From = [], archivesFilters.To = [],
        archivesFilters.Properties = None,
        Tags = Some (NewPropertyFilterType inc vals r), Sales = None,
        Goals = None, Surveys = None, ThreadIDs = t, Query = [],
        EventTypes = None\<rparr>], Some i)
  \<and> do { (h1, af) \<leftarrow> archivesFilters_ByThreads h (Some i) t;
          archivesFilters_BySales h1 af inc vals r } =
      Some (h[i := \<lparr>Agents = None, archivesFilters.GroupIDs = None,
        archivesFilters.From = [], archivesFilters.To = [],
        archivesFilters.Properties = None, Tags = None,
        Sales = Some (NewPropertyFilterType inc vals r), Goals = None,
        Surveys = None, ThreadIDs = t, Query = [], EventTypes = None\<rparr>], Some i)
  \<and> do { (h1, af) \<leftarrow> archivesFilters_ByThreads h (Some i) t;
          archivesFilters_ByGoals h1 af inc vals r } =
      Some (h[i := \<lparr>Agents = None, archivesFilters.GroupIDs = None,
        archivesFilters.From = [], archivesFilters.To = [],
        archivesFilters.Properties = None, Tags = None, Sales = None,
        Goals = Some (NewPropertyFilterType inc vals r), Surveys = None,
        ThreadIDs = t, Query = [], EventTypes = None\<rparr>], Some i)
  \<and> do { (h1, af) \<leftarrow> archivesFilters_ByThreads h (Some i) t;
          archivesFilters_ByEventTypes h1 af inc evals r } =
      Some (h[i := \<lparr>Agents = None, archivesFilters.GroupIDs = None,
        archivesFilters.From = [], archivesFilters.To = [],
        archivesFilters.Properties = None, Tags = None, Sales = None,
        Goals = None, Surveys = None, ThreadIDs = t, Query = [],
        EventTypes = Some \<lparr>eventTypesFilter.Values = (if inc then evals else None),
          eventTypesFilter.ExcludeValues = (if inc then None else evals),
          eventTypesFilter.RequireEveryValue = Some r\<rparr>\<rparr>], Some i)
  \<and> do { (h1, af1) \<leftarrow> archivesFilters_ByThreads h (Some i) (Some (x # xs));
          (h2, af2) \<leftarrow> archivesFilters_ByQuery h1 af1 (c # cs);
          Marshal (marshal_archivesFilters enc) h2 af2 } =
      Some (JObject
        [(''thread_ids'', JArray (map (\<lambda>s. JString (appendString 0 s)) (x # xs))),
         (''query'', JString (appendString 0 (c # cs)))])"
  using assms
  by (simp add: ByThreads_valid archives_mutators Marshal_def load_valid
        marshal_archivesFilters_def enc_defs enc_slice_string)

text \<open>
  The instance of C9 at an aggregate with earlier filters:
  \<^verbatim>\<open>ByThreads([]string{"t1"}).ByQuery("q")\<close> serialises to
  \<^verbatim>\<open>{"thread_ids":["t1"],"query":"q"}\<close>.
\<close>

theorem ByThreads_then_mutator_witness:
  "(0::nat) < length [\<lparr>Agents = Some (NewPropertyFilterType True (Some [()]) False),
        archivesFilters.GroupIDs = Some [7],
        archivesFilters.From = ''2020-01-01'', archivesFilters.To = [],
        archivesFilters.Properties = None, Tags = None, Sales = None,
        Goals = None, Surveys = None, ThreadIDs = Some [''old''],
        Query = ''hello'', EventTypes = None\<rparr> :: unit archivesFilters]
   \<and> do { (h1, af1) \<leftarrow> archivesFilters_ByThreads
            [\<lparr>Agents = Some (NewPropertyFilterType True (Some [()]) False),
        archivesFilters.GroupIDs = Some [7],
        archivesFilters.From = ''2020-01-01'', archivesFilters.To = [],
        archivesFilters.Properties = None, Tags = None, Sales = None,
        Goals = None, Surveys = None, ThreadIDs = Some [''old''],
        Query = ''hello'', EventTypes = None\<rparr> :: unit archivesFilters] (Some 0) (Some [''t1'']);
          (h2, af2) \<leftarrow> archivesFilters_ByQuery h1 af1 ''q'';
          Marshal (marshal_archivesFilters (\<lambda>_. None)) h2 af2 } =
      Some (JObject [(''thread_ids'', JArray [JString ''t1'']), (''query'', JString ''q'')])"
  using ByThreads_then_mutator [where i = 0 and h = "[\<lparr>Agents = Some (NewPropertyFilterType True (Some [()]) False),
        archivesFilters.GroupIDs = Some [7],
        archivesFilters.From = ''2020-01-01'', archivesFilters.To = [],
        archivesFilters.Properties = None, Tags = None, Sales = None,
        Goals = None, Surveys = None, ThreadIDs = Some [''old''],
        Query = ''hello'', EventTypes = None\<rparr> :: unit archivesFilters]"
      and x = "''t1''" and xs = "[]" and c = "CHR ''q''" and cs = "[]" and enc = "\<lambda>_. None"]
  by simp

section \<open>Serialisation of the aggregates\<close>

text \<open>
  C4, as stated, fails for the chats aggregate: \<^verbatim>\<open>NewChatsFilters\<close> sets
  \<^verbatim>\<open>IncludeActive\<close> to true, which \<^verbatim>\<open>omitempty\<close> does not leave out, so the fresh chats
  aggregate does not serialise to the empty object.
\<close>

theorem fresh_chats_counterexample:
  "Marshal (marshal_chatsFilters (\<lambda>_ :: unit. None)) (fst (NewChatsFilters []))
     (snd (NewChatsFilters [])) \<noteq> Some (JObject [])"
  by (simp add: Marshal_def NewChatsFilters_def new_def load_def marshal_chatsFilters_def enc_defs)

text \<open>
  C4, amended. Freshly constructed archives, customers and threads aggregates serialise
  to the empty object \<^verbatim>\<open>{}\<close>; the freshly constructed chats aggregate serialises to
  \<^verbatim>\<open>{"include_active":true}\<close>.
\<close>

theorem fresh_aggregates:
  "(case NewArchivesFilters ha of (h, af) \<Rightarrow> Marshal (marshal_archivesFilters enc) h af)
     = Some (JObject [])
   \<and> (case NewCustomersFilters hc of (h, cf) \<Rightarrow> Marshal marshal_customersFilters h cf)
     = Some (JObject [])
   \<and> (case NewThreadsFilters ht of (h, tf) \<Rightarrow> Marshal marshal_threadsFilters h tf)
     = Some (JObject [])
   \<and> (case NewChatsFilters hch of (h, cf) \<Rightarrow> Marshal (marshal_chatsFilters enc') h cf)
     = Some (JObject [(''include_active'', JBool True)])"
  by (simp add: Marshal_def NewArchivesFilters_def NewCustomersFilters_def NewThreadsFilters_def
        NewChatsFilters_def new_def load_def marshal_archivesFilters_def
        marshal_customersFilters_def marshal_threadsFilters_def marshal_chatsFilters_def enc_defs)

text \<open>
  C5. \<^verbatim>\<open>NewChatsFilters().WithoutActiveChats()\<close> serialises to the empty object: the
  \<^verbatim>\<open>include_active\<close> field, false again, is left out.
\<close>

theorem WithoutActiveChats_serialises_empty:
  "(case NewChatsFilters h of (h0, cf) \<Rightarrow> do {
      (h1, cf1) \<leftarrow> chatsFilters_WithoutActiveChats h0 cf;
      Marshal (marshal_chatsFilters enc) h1 cf1 }) = Some (JObject [])"
  by (simp add: Marshal_def NewChatsFilters_def new_def load_def chats_mutators
        marshal_chatsFilters_def enc_defs)

text \<open>
  C7. \<^verbatim>\<open>NewArchivesFilters().ByGroups([]uint{1,2}).FromDate("2020-01-01")\<close> serialises to
  the object with the two members \<^verbatim>\<open>"group_ids":[1,2]\<close> and \<^verbatim>\<open>"from":"2020-01-01"\<close>, in
  this order, and no other member.
\<close>

theorem ByGroups_FromDate_serialised:
  "(case NewArchivesFilters h of (h0, af) \<Rightarrow> do {
      (h1, af1) \<leftarrow> archivesFilters_ByGroups h0 af (Some [1, 2]);
      (h2, af2) \<leftarrow> archivesFilters_FromDate h1 af1 ''2020-01-01'';
      Marshal (marshal_archivesFilters enc) h2 af2 })
   = Some (JObject [(''group_ids'', JArray [JNumber 1, JNumber 2]),
                    (''from'', JString ''2020-01-01'')])"
  by (simp add: Marshal_def NewArchivesFilters_def new_def load_def archives_mutators
        marshal_archivesFilters_def enc_defs enc_slice_uint)

section \<open>Bounds of the range filters\<close>

text \<open>
  C10. In the encoding of a \<^verbatim>\<open>RangeFilter\<close> a bound is present exactly when it is not 0,
  so no member has the value 0; in the encoding of a \<^verbatim>\<open>DateRangeFilter\<close> a bound is
  present exactly when it is not the empty string. Consequently, after
  \<^verbatim>\<open>ByChatsCount\<close>, \<^verbatim>\<open>ByThreadsCount\<close> or \<^verbatim>\<open>ByVisitsCount\<close> with any non-nil range
  filter, on any allocated customers aggregate, the payload's \<^verbatim>\<open>chats_count\<close>,
  \<^verbatim>\<open>threads_count\<close> or \<^verbatim>\<open>visits_count\<close> member is an object without any bound of value 0.
\<close>

theorem zero_bounds_omitted:
  assumes "i < length h"
  shows
   "(\<exists>ms. marshal_RangeFilter rf = Some (JObject ms)
       \<and> (\<forall>k. (k, JNumber 0) \<notin> set ms)
       \<and> (''lte'' \<in> fst ` set ms) = (RangeFilter.LTE rf \<noteq> 0)
       \<and> (''lt'' \<in> fst ` set ms) = (RangeFilter.LT rf \<noteq> 0)
       \<and> (''gte'' \<in> fst ` set ms) = (RangeFilter.GTE rf \<noteq> 0)
       \<and> (''gt'' \<in> fst ` set ms) = (RangeFilter.GT rf \<noteq> 0)
       \<and> (''eq'' \<in> fst ` set ms) = (RangeFilter.EQ rf \<noteq> 0))
  \<and> (\<exists>ms. marshal_DateRangeFilter drf = Some (JObject ms)
       \<and> (\<forall>k. (k, JString []) \<notin> set ms)
       \<and> (''lte'' \<in> fst ` set ms) = (DateRangeFilter.LTE drf \<noteq> [])
       \<and> (''lt'' \<in> fst ` set ms) = (DateRangeFilter.LT drf \<noteq> [])
       \<and> (''gte'' \<in> fst ` set ms) = (DateRangeFilter.GTE drf \<noteq> [])
       \<and> (''gt'' \<in> fst ` set ms) = (DateRangeFilter.GT drf \<noteq> [])
       \<and> (''eq'' \<in> fst ` set ms) = (DateRangeFilter.EQ drf \<noteq> []))
  \<and> (\<exists>obj ms.
        do { (h1, cf1) \<leftarrow> customersFilters_ByChatsCount h (Some i) (Some rf);
             Marshal marshal_customersFilters h1 cf1 } = Some (JObject obj)
        \<and> map_of obj ''chats_count'' = Some (JObject ms)
        \<and> (\<forall>k. (k, JNumber 0) \<notin> set ms))
  \<and> (\<exists>obj ms.
        do { (h1, cf1) \<leftarrow> customersFilters_ByThreadsCount h (Some i) (Some rf);
             Marshal marshal_customersFilters h1 cf1 } = Some (JObject obj)
        \<and> map_of obj ''threads_count'' = Some (JObject ms)
        \<and> (\<forall>k. (k, JNumber 0) \<notin> set ms))
  \<and> (\<exists>obj ms.
        do { (h1, cf1) \<leftarrow> customersFilters_ByVisitsCount h (Some i) (Some rf);
             Marshal marshal_customersFilters h1 cf1 } = Some (JObject obj)
        \<and> map_of obj ''visits_count'' = Some (JObject ms)
        \<and> (\<forall>k. (k, JNumber 0) \<notin> set ms))"
proof -
  obtain ms where ms: "marshal_RangeFilter rf = Some (JObject ms)"
      "\<forall>k. (k, JNumber 0) \<notin> set ms"
    using RangeFilter_members [of rf] by blast
  have chats: "(\<exists>obj ms.
        do { (h1, cf1) \<leftarrow> customersFilters_ByChatsCount h (Some i) (Some rf);
             Marshal marshal_customersFilters h1 cf1 } = Some (JObject obj)
        \<and> map_of obj ''chats_count'' = Some (JObject ms)
        \<and> (\<forall>k. (k, JNumber 0) \<notin> set ms))"
    using payload_chats_count [OF assms, of rf] ms by auto
  have threads: "(\<exists>obj ms.
        do { (h1, cf1) \<leftarrow> customersFilters_ByThreadsCount h (Some i) (Some rf);
             Marshal marshal_customersFilters h1 cf1 } = Some (JObject obj)
        \<and> map_of obj ''threads_count'' = Some (JObject ms)
        \<and> (\<forall>k. (k, JNumber 0) \<notin> set ms))"
    using payload_threads_count [OF assms, of rf] ms by auto
  have visits: "(\<exists>obj ms.
        do { (h1, cf1) \<leftarrow> customersFilters_ByVisitsCount h (Some i) (Some rf);
             Marshal marshal_customersFilters h1 cf1 } = Some (JObject obj)
        \<and> map_of obj ''visits_count'' = Some (JObject ms)
        \<and> (\<forall>k. (k, JNumber 0) \<notin> set ms))"
    using payload_visits_count [OF assms, of rf] ms by auto
  show ?thesis
    by (intro conjI RangeFilter_members DateRangeFilter_members chats threads visits)
qed

text \<open>
  The instance of C10 at a fresh customers aggregate and
  \<^verbatim>\<open>&RangeFilter{LTE: 5, EQ: 0}\<close>: the \<^verbatim>\<open>eq\<close> bound is not written.
\<close>

theorem zero_bounds_omitted_witness:
  "(0::nat) < length (fst (NewCustomersFilters []))
   \<and> marshal_RangeFilter \<lparr>RangeFilter.LTE = 5, RangeFilter.LT = 0, RangeFilter.GTE = 0,
             RangeFilter.GT = 0, RangeFilter.EQ = 0\<rparr>
       = Some (JObject [(''lte'', JNumber 5)])
   \<and> (\<exists>obj ms.
        do { (h1, cf1) \<leftarrow> customersFilters_ByChatsCount (fst (NewCustomersFilters [])) (Some 0)
               (Some \<lparr>RangeFilter.LTE = 5, RangeFilter.LT = 0, RangeFilter.GTE = 0,
             RangeFilter.GT = 0, RangeFilter.EQ = 0\<rparr>);
             Marshal marshal_customersFilters h1 cf1 } = Some (JObject obj)
        \<and> map_of obj ''chats_count'' = Some (JObject ms)
        \<and> (\<forall>k. (k, JNumber 0) \<notin> set ms))"
proof -
  have len: "(0::nat) < length (fst (NewCustomersFilters []))"
    by (simp add: NewCustomersFilters_def new_def)
  have enc: "marshal_RangeFilter \<lparr>RangeFilter.LTE = 5, RangeFilter.LT = 0, RangeFilter.GTE = 0,
             RangeFilter.GT = 0, RangeFilter.EQ = 0\<rparr>
       = Some (JObject [(''lte'', JNumber 5)])"
    by (simp add: marshal_RangeFilter_def enc_defs enc_int_def)
  from zero_bounds_omitted [OF len, where rf = "\<lparr>RangeFilter.LTE = 5, RangeFilter.LT = 0, RangeFilter.GTE = 0,
             RangeFilter.GT = 0, RangeFilter.EQ = 0\<rparr>"]
  show ?thesis using len enc by blast
qed

end
